theory Spec2Isabelle
  imports Main "HOL-Library.Word"
begin

unbundle bit_operations_syntax

section \<open>Faults\<close>

text \<open>
  The program has no error values: it leaves a function abnormally in one of three ways.
  \<^item> \<open>InvalidOpcode\<close>: the macro \<^verbatim>\<open>FAIL(msg)\<close> writes a diagnostic to \<^verbatim>\<open>std::cerr\<close> and calls
    \<^verbatim>\<open>exit(1)\<close>. Every use of the macro in the source reports an invalid opcode.
  \<^item> \<open>IndexOutOfRange\<close>: \<^verbatim>\<open>std::vector::at\<close> throws \<^verbatim>\<open>std::out_of_range\<close>; nothing in the
    source catches it, so the process terminates.
  \<^item> \<open>UndefinedBehaviour\<close>: the source does something for which C++ defines no behaviour
    (control reaches the end of a value-returning function, an uninitialised member is
    read, \<^verbatim>\<open>back()\<close> or \<^verbatim>\<open>pop_back()\<close> is called on an empty vector). Nothing is
    signalled and nothing is known about what happens next.
  A function of the source that can be left in one of these ways returns \<open>fault + 'a\<close>.
\<close>

datatype fault = InvalidOpcode | IndexOutOfRange | UndefinedBehaviour

text \<open>The faults that the program detects and reports, as opposed to undefined behaviour.\<close>

fun signalled :: "fault \<Rightarrow> bool" where
  "signalled InvalidOpcode = True"
| "signalled IndexOutOfRange = True"
| "signalled UndefinedBehaviour = False"

text \<open>Sequencing: the second computation runs only when the first returned.\<close>

definition and_then :: "fault + 'a \<Rightarrow> ('a \<Rightarrow> fault + 'b) \<Rightarrow> fault + 'b" where
  "and_then r f = (case r of Inl e \<Rightarrow> Inl e | Inr x \<Rightarrow> f x)"

section \<open>Instruction\<close>

text \<open>
  \<^verbatim>\<open>enum class Opcode : uint8_t\<close>, the enumerators in the order of the source (so their
  values are 0 to 7). The enumerator \<^verbatim>\<open>_Count\<close> is written \<open>Count\<close>.
\<close>

datatype Opcode = Return | Constant | Add | Subtract | Multiply | Divide | Negate | Count

text \<open>\<^verbatim>\<open>static_cast<uint8_t>(opcode)\<close>\<close>

fun opcode_tag :: "Opcode \<Rightarrow> 8 word" where
  "opcode_tag Return = 0"
| "opcode_tag Constant = 1"
| "opcode_tag Add = 2"
| "opcode_tag Subtract = 3"
| "opcode_tag Multiply = 4"
| "opcode_tag Divide = 5"
| "opcode_tag Negate = 6"
| "opcode_tag Count = 7"

text \<open>
  \<^verbatim>\<open>static_cast<Opcode>(byte)\<close>. The enumeration has a fixed underlying type, so the cast is
  defined for every byte; the bytes 8 to 255 give a value that is none of the enumerators
  (\<open>None\<close>).
\<close>

definition opcode_of_byte :: "8 word \<Rightarrow> Opcode option" where
  "opcode_of_byte b =
     (if b = 0 then Some Return
      else if b = 1 then Some Constant
      else if b = 2 then Some Add
      else if b = 3 then Some Subtract
      else if b = 4 then Some Multiply
      else if b = 5 then Some Divide
      else if b = 6 then Some Negate
      else if b = 7 then Some Count
      else None)"

text \<open>
  The members \<^verbatim>\<open>line_\<close>, \<^verbatim>\<open>opcode_\<close> and \<^verbatim>\<open>index_\<close> (a name cannot end in an underscore
  here, so the members carry the suffix \<open>_m\<close>). \<^verbatim>\<open>uint\<close> is a 32-bit word; \<^verbatim>\<open>index_\<close> is a
  bit-field of 24 bits. The two-argument constructor does not initialise \<^verbatim>\<open>index_\<close>:
  \<open>None\<close> is the indeterminate value, and reading it is undefined behaviour.
\<close>

record Instruction =
  line_m :: "32 word"
  opcode_m :: Opcode
  index_m :: "24 word option"

text \<open>\<^verbatim>\<open>Instruction(line, opcode)\<close>\<close>

definition Instruction2 :: "32 word \<Rightarrow> Opcode \<Rightarrow> Instruction" where
  "Instruction2 line opcode = \<lparr>line_m = line, opcode_m = opcode, index_m = None\<rparr>"

text \<open>
  \<^verbatim>\<open>Instruction(line, opcode, index)\<close>: the \<^verbatim>\<open>uint\<close> argument is converted to the 24-bit
  field, which keeps its low 24 bits.
\<close>

definition Instruction3 :: "32 word \<Rightarrow> Opcode \<Rightarrow> 32 word \<Rightarrow> Instruction" where
  "Instruction3 line opcode index =
     \<lparr>line_m = line, opcode_m = opcode, index_m = Some (ucast index)\<rparr>"

definition get_line :: "Instruction \<Rightarrow> 32 word" where
  "get_line i = line_m i"

definition get_opcode :: "Instruction \<Rightarrow> Opcode" where
  "get_opcode i = opcode_m i"

text \<open>\<^verbatim>\<open>size_t get_constant_index() const\<close>; \<^verbatim>\<open>size_t\<close> values are natural numbers.\<close>

definition get_constant_index :: "Instruction \<Rightarrow> fault + nat" where
  "get_constant_index i =
     (case index_m i of None \<Rightarrow> Inl UndefinedBehaviour | Some x \<Rightarrow> Inr (unat x))"

text \<open>
  \<^verbatim>\<open>Instruction::deserialize\<close>. The switch has a case for each enumerator and no default:
  for a low byte from 8 to 255 no case is taken and control reaches the end of the
  function, which returns no value.
\<close>

definition deserialize :: "32 word \<Rightarrow> 32 word \<Rightarrow> fault + Instruction" where
  "deserialize line bytes =
     (case opcode_of_byte (ucast (bytes AND 0xff)) of
        None \<Rightarrow> Inl UndefinedBehaviour
      | Some opcode \<Rightarrow>
          (case opcode of
             Return \<Rightarrow> Inr (Instruction2 line opcode)
           | Add \<Rightarrow> Inr (Instruction2 line opcode)
           | Subtract \<Rightarrow> Inr (Instruction2 line opcode)
           | Multiply \<Rightarrow> Inr (Instruction2 line opcode)
           | Divide \<Rightarrow> Inr (Instruction2 line opcode)
           | Negate \<Rightarrow> Inr (Instruction2 line opcode)
           | Constant \<Rightarrow> Inr (Instruction3 line opcode (drop_bit 8 bytes))
           | Count \<Rightarrow> Inl InvalidOpcode))"

text \<open>
  \<^verbatim>\<open>Instruction::serialize\<close>. In \<^verbatim>\<open>index_ << 8\<close> the bit-field is promoted to \<^verbatim>\<open>int\<close>; the
  shift and the conversion back to \<^verbatim>\<open>uint32_t\<close> are modulo \<open>2 ^ 32\<close>, so the word gets
  the 24 bits of the field above the tag.
\<close>

definition serialize :: "Instruction \<Rightarrow> fault + (32 word \<times> 32 word)" where
  "serialize i =
     (let bytecode = (ucast (opcode_tag (opcode_m i)) :: 32 word) in
      (case opcode_m i of
         Return \<Rightarrow> Inr (line_m i, bytecode)
       | Add \<Rightarrow> Inr (line_m i, bytecode)
       | Subtract \<Rightarrow> Inr (line_m i, bytecode)
       | Multiply \<Rightarrow> Inr (line_m i, bytecode)
       | Divide \<Rightarrow> Inr (line_m i, bytecode)
       | Negate \<Rightarrow> Inr (line_m i, bytecode)
       | Constant \<Rightarrow>
           (case index_m i of
              None \<Rightarrow> Inl UndefinedBehaviour
            | Some x \<Rightarrow> Inr (line_m i, bytecode OR push_bit 8 (ucast x)))
       | Count \<Rightarrow> Inl InvalidOpcode))"

section \<open>Floating-point values and text\<close>

text \<open>
  The values of the machine are C++ \<^verbatim>\<open>double\<close>s. Their arithmetic and their rendering as
  text belong to the platform, not to the program: the model takes the type \<open>'d\<close> of
  doubles and these operations as a parameter. What is proved of the program with the
  parameter free holds for any choice of them.
  \<^item> \<open>fadd\<close>, \<open>fsub\<close>, \<open>fmul\<close>, \<open>fdiv\<close>, \<open>fneg\<close>: the operators \<^verbatim>\<open>+ - * /\<close> and unary
    \<^verbatim>\<open>-\<close> on \<^verbatim>\<open>double\<close>;
  \<^item> \<open>ostream_double\<close>: the characters that \<^verbatim>\<open>out << value\<close> writes;
  \<^item> \<open>format_double\<close>: the characters of \<^verbatim>\<open>std::format\<close> for a \<^verbatim>\<open>double\<close> without width.
\<close>

record 'd double_ops =
  fadd :: "'d \<Rightarrow> 'd \<Rightarrow> 'd"
  fsub :: "'d \<Rightarrow> 'd \<Rightarrow> 'd"
  fmul :: "'d \<Rightarrow> 'd \<Rightarrow> 'd"
  fdiv :: "'d \<Rightarrow> 'd \<Rightarrow> 'd"
  fneg :: "'d \<Rightarrow> 'd"
  ostream_double :: "'d \<Rightarrow> string"
  format_double :: "'d \<Rightarrow> string"

text \<open>An output stream is the text written to it so far; \<^verbatim>\<open>std::endl\<close> writes a newline.\<close>

definition endl :: string where
  "endl = [CHR 0x0A]"

text \<open>The digits of a number in base 10 and in base 2, without leading zeros.\<close>

fun decimal :: "nat \<Rightarrow> string" where
  "decimal n =
     (if n < 10 then [''0123456789'' ! n]
      else decimal (n div 10) @ [''0123456789'' ! (n mod 10)])"

fun binary :: "nat \<Rightarrow> string" where
  "binary n =
     (if n < 2 then [''01'' ! n]
      else binary (n div 2) @ [''01'' ! (n mod 2)])"

declare decimal.simps [simp del] binary.simps [simp del]

text \<open>
  The format specification \<^verbatim>\<open>{:F>W}\<close>: the text, preceded by as many fill characters
  \<open>F\<close> as it lacks to the width \<open>W\<close> (a longer text is not cut).
\<close>

definition right_align :: "char \<Rightarrow> nat \<Rightarrow> string \<Rightarrow> string" where
  "right_align fill width s = replicate (width - length s) fill @ s"

text \<open>\<^verbatim>\<open>to_string(Instruction::Opcode)\<close>\<close>

fun to_string :: "Opcode \<Rightarrow> fault + string" where
  "to_string Return = Inr ''RETURN''"
| "to_string Constant = Inr ''CONSTANT''"
| "to_string Add = Inr ''ADD''"
| "to_string Subtract = Inr ''SUBTRACT''"
| "to_string Multiply = Inr ''MULTIPLY''"
| "to_string Divide = Inr ''DIVIDE''"
| "to_string Negate = Inr ''NEGATE''"
| "to_string Count = Inl InvalidOpcode"

section \<open>ConstantPool\<close>

record 'd ConstantPool =
  constants_m :: "'d list"

definition new_ConstantPool :: "'d ConstantPool" where
  "new_ConstantPool = \<lparr>constants_m = []\<rparr>"

text \<open>\<^verbatim>\<open>double get(size_t) const\<close>: \<^verbatim>\<open>constants_.at(offset)\<close>\<close>

definition get :: "'d ConstantPool \<Rightarrow> nat \<Rightarrow> fault + 'd" where
  "get p offset =
     (if offset < length (constants_m p) then Inr (constants_m p ! offset)
      else Inl IndexOutOfRange)"

text \<open>\<^verbatim>\<open>size_t add(double)\<close>: the pool after the call and the value returned.\<close>

definition add :: "'d ConstantPool \<Rightarrow> 'd \<Rightarrow> 'd ConstantPool \<times> nat" where
  "add p constant =
     (let p' = p\<lparr>constants_m := constants_m p @ [constant]\<rparr>
      in (p', length (constants_m p') - 1))"

section \<open>Chunk\<close>

record 'd Chunk =
  name_m :: string
  lines_m :: "32 word list"
  codes_m :: "32 word list"
  constant_pool_m :: "'d ConstantPool"

definition new_Chunk :: "string \<Rightarrow> 'd Chunk" where
  "new_Chunk name =
     \<lparr>name_m = name, lines_m = [], codes_m = [], constant_pool_m = new_ConstantPool\<rparr>"

definition get_name :: "'d Chunk \<Rightarrow> string" where
  "get_name c = name_m c"

definition get_length :: "'d Chunk \<Rightarrow> nat" where
  "get_length c = length (codes_m c)"

definition get_constant_pool :: "'d Chunk \<Rightarrow> 'd ConstantPool" where
  "get_constant_pool c = constant_pool_m c"

text \<open>
  \<^verbatim>\<open>Instruction read(size_t) const\<close>: both \<^verbatim>\<open>lines_.at(offset)\<close> and \<^verbatim>\<open>codes_.at(offset)\<close>
  are evaluated (in either order) before \<^verbatim>\<open>deserialize\<close> is called, and each throws when
  the offset is not below the size of its vector.
\<close>

definition read :: "'d Chunk \<Rightarrow> nat \<Rightarrow> fault + Instruction" where
  "read c offset =
     (if offset < length (lines_m c) \<and> offset < length (codes_m c)
      then deserialize (lines_m c ! offset) (codes_m c ! offset)
      else Inl IndexOutOfRange)"

text \<open>
  \<^verbatim>\<open>void write(const Instruction&)\<close>: the chunk after the call (\<open>write\<close> alone is a
  reserved word here).
\<close>

definition Chunk_write :: "'d Chunk \<Rightarrow> Instruction \<Rightarrow> fault + 'd Chunk" where
  "Chunk_write c instruction =
     (case serialize instruction of
        Inl e \<Rightarrow> Inl e
      | Inr (line, code) \<Rightarrow>
          Inr (c\<lparr>lines_m := lines_m c @ [line], codes_m := codes_m c @ [code]\<rparr>))"

text \<open>A sequence of \<^verbatim>\<open>write\<close> calls, one per instruction of the list, in order.\<close>

fun write_all :: "'d Chunk \<Rightarrow> Instruction list \<Rightarrow> fault + 'd Chunk" where
  "write_all c [] = Inr c"
| "write_all c (i # rest) =
     (case Chunk_write c i of Inl e \<Rightarrow> Inl e | Inr c' \<Rightarrow> write_all c' rest)"

text \<open>
  \<^verbatim>\<open>chunk.get_constant_pool().add(constant)\<close>: the call of \<^verbatim>\<open>add\<close> through the reference
  that the non-const \<^verbatim>\<open>get_constant_pool\<close> returns changes the pool inside the chunk.
\<close>

definition add_constant :: "'d Chunk \<Rightarrow> 'd \<Rightarrow> 'd Chunk \<times> nat" where
  "add_constant c constant =
     (let (p, i) = add (get_constant_pool c) constant
      in (c\<lparr>constant_pool_m := p\<rparr>, i))"

text \<open>
  \<^verbatim>\<open>void disassemble(std::ostream&, const size_t index)\<close>: the text of the stream after
  the call. The chunk is not changed.
\<close>

definition disassemble_at :: "'d double_ops \<Rightarrow> 'd Chunk \<Rightarrow> string \<Rightarrow> nat \<Rightarrow> fault + string" where
  "disassemble_at F c out index =
     (if \<not> index < length (codes_m c) then Inl IndexOutOfRange
      else
        (let code = codes_m c ! index in
         (case read c index of
            Inl e \<Rightarrow> Inl e
          | Inr instr \<Rightarrow>
              (let line = get_line instr;
                   opcode = get_opcode instr;
                   index_str = right_align (CHR ''0'') 6 (decimal index);
                   line_str = right_align (CHR ''0'') 5 (decimal (unat line));
                   code_str = right_align (CHR ''0'') 32 (binary (unat code))
               in
               (case to_string (get_opcode instr) of
                  Inl e \<Rightarrow> Inl e
                | Inr opcode_name \<Rightarrow>
                    (let opcode_str = right_align (CHR '' '') 10 opcode_name;
                         out1 = out @ index_str @ ''  '' @ line_str @ ''  '' @ code_str @ ''  ''
                                  @ opcode_str @ ''  ''
                     in
                     (case opcode of
                        Return \<Rightarrow> Inr (out1 @ endl)
                      | Add \<Rightarrow> Inr (out1 @ endl)
                      | Subtract \<Rightarrow> Inr (out1 @ endl)
                      | Multiply \<Rightarrow> Inr (out1 @ endl)
                      | Divide \<Rightarrow> Inr (out1 @ endl)
                      | Negate \<Rightarrow> Inr (out1 @ endl)
                      | Constant \<Rightarrow>
                          (case get_constant_index instr of
                             Inl e \<Rightarrow> Inl e
                           | Inr constant_index \<Rightarrow>
                               (case get (get_constant_pool c) constant_index of
                                  Inl e \<Rightarrow> Inl e
                                | Inr v \<Rightarrow>
                                    Inr (out1 @ right_align (CHR '' '') 6 (decimal index) @ ''  ''
                                           @ right_align (CHR '' '') 10 (format_double F v)
                                           @ endl)))
                      | Count \<Rightarrow> Inl InvalidOpcode)))))))"

section \<open>VirtualMachine\<close>

datatype Result = Ok | CompileError | RuntimeError

text \<open>
  The machine holds a pointer to its chunk; nothing else changes the chunk while the
  machine runs, so the record holds the chunk itself.
\<close>

record 'd VirtualMachine =
  chunk_m :: "'d Chunk"
  ip_m :: nat
  stack_m :: "'d list"

definition new_VirtualMachine :: "'d Chunk \<Rightarrow> 'd VirtualMachine" where
  "new_VirtualMachine chunk = \<lparr>chunk_m = chunk, ip_m = 0, stack_m = []\<rparr>"

text \<open>\<^verbatim>\<open>push_\<close>: \<^verbatim>\<open>stack_.push_back(value)\<close>; the top of the stack is the end of the list.\<close>

definition push :: "'d VirtualMachine \<Rightarrow> 'd \<Rightarrow> 'd VirtualMachine" where
  "push vm v = vm\<lparr>stack_m := stack_m vm @ [v]\<rparr>"

text \<open>
  \<^verbatim>\<open>pop_\<close>: \<^verbatim>\<open>stack_.back()\<close> then \<^verbatim>\<open>stack_.pop_back()\<close>, neither guarded by a test for
  emptiness: on an empty vector both are undefined behaviour.
\<close>

definition pop :: "'d VirtualMachine \<Rightarrow> fault + ('d \<times> 'd VirtualMachine)" where
  "pop vm =
     (if stack_m vm = [] then Inl UndefinedBehaviour
      else Inr (last (stack_m vm), vm\<lparr>stack_m := butlast (stack_m vm)\<rparr>))"

text \<open>The body shared by the four binary opcodes: the right operand is popped first.\<close>

definition binary_op ::
  "('d \<Rightarrow> 'd \<Rightarrow> 'd) \<Rightarrow> 'd VirtualMachine \<Rightarrow> string \<Rightarrow> fault + ('d VirtualMachine \<times> string)" where
  "binary_op f vm out =
     (case pop vm of
        Inl e \<Rightarrow> Inl e
      | Inr (right, vm1) \<Rightarrow>
          (case pop vm1 of
             Inl e \<Rightarrow> Inl e
           | Inr (left, vm2) \<Rightarrow> Inr (push vm2 (f left right), out)))"

text \<open>
  \<^verbatim>\<open>void step(std::ostream&, const Instruction)\<close>: the machine and the text of the stream
  after the call.
\<close>

definition step ::
  "'d double_ops \<Rightarrow> 'd VirtualMachine \<Rightarrow> string \<Rightarrow> Instruction
     \<Rightarrow> fault + ('d VirtualMachine \<times> string)" where
  "step F vm out instr =
     (case get_opcode instr of
        Return \<Rightarrow>
          (case pop vm of
             Inl e \<Rightarrow> Inl e
           | Inr (v, vm1) \<Rightarrow> Inr (vm1, out @ ostream_double F v @ endl))
      | Add \<Rightarrow> binary_op (fadd F) vm out
      | Subtract \<Rightarrow> binary_op (fsub F) vm out
      | Multiply \<Rightarrow> binary_op (fmul F) vm out
      | Divide \<Rightarrow> binary_op (fdiv F) vm out
      | Negate \<Rightarrow>
          (case pop vm of
             Inl e \<Rightarrow> Inl e
           | Inr (v, vm1) \<Rightarrow> Inr (push vm1 (fneg F v), out))
      | Constant \<Rightarrow>
          (case get_constant_index instr of
             Inl e \<Rightarrow> Inl e
           | Inr i \<Rightarrow>
               (case get (get_constant_pool (chunk_m vm)) i of
                  Inl e \<Rightarrow> Inl e
                | Inr v \<Rightarrow> Inr (push vm v, out)))
      | Count \<Rightarrow> Inl InvalidOpcode)"

text \<open>\<^verbatim>\<open>dump_\<close>: the stack from bottom to top, then the disassembly of the next instruction.\<close>

definition dump :: "'d double_ops \<Rightarrow> 'd VirtualMachine \<Rightarrow> string \<Rightarrow> fault + string" where
  "dump F vm out =
     (let out1 = out @ ''[ '';
          out2 = foldl (\<lambda>acc v. acc @ ostream_double F v @ '' '') out1 (stack_m vm);
          out3 = out2 @ '']'' @ endl
      in disassemble_at F (chunk_m vm) out3 (ip_m vm))"

text \<open>
  The loop of \<^verbatim>\<open>run\<close> ends because \<^verbatim>\<open>step\<close> changes neither the chunk nor the instruction
  pointer.
\<close>

lemma pop_keeps:
  "pop vm = Inr (v, vm') \<Longrightarrow> chunk_m vm' = chunk_m vm \<and> ip_m vm' = ip_m vm"
  by (auto simp: pop_def split: if_splits)

lemma push_keeps: "chunk_m (push vm v) = chunk_m vm \<and> ip_m (push vm v) = ip_m vm"
  by (simp add: push_def)

lemma binary_op_keeps:
  "binary_op f vm out = Inr (vm', out') \<Longrightarrow> chunk_m vm' = chunk_m vm \<and> ip_m vm' = ip_m vm"
  by (auto simp: binary_op_def push_keeps split: sum.splits prod.splits dest!: pop_keeps)

lemma step_keeps:
  "step F vm out instr = Inr (vm', out') \<Longrightarrow> chunk_m vm' = chunk_m vm \<and> ip_m vm' = ip_m vm"
  unfolding step_def
  by (cases "get_opcode instr")
     (auto simp: push_keeps split: sum.splits prod.splits dest!: pop_keeps binary_op_keeps)

text \<open>
  \<^verbatim>\<open>Result run(std::ostream&)\<close>, with \<^verbatim>\<open>DEBUG_TRACE_EXECUTION\<close> defined as in the source:
  the value returned, the machine and the text of the stream after the call.
\<close>

function run ::
  "'d double_ops \<Rightarrow> 'd VirtualMachine \<Rightarrow> string
     \<Rightarrow> fault + (Result \<times> 'd VirtualMachine \<times> string)" where
  "run F vm out =
     (if ip_m vm < get_length (chunk_m vm) then
        (case dump F vm out of
           Inl e \<Rightarrow> Inl e
         | Inr out1 \<Rightarrow>
             (case read (chunk_m vm) (ip_m vm) of
                Inl e \<Rightarrow> Inl e
              | Inr instr \<Rightarrow>
                  (case step F vm out1 instr of
                     Inl e \<Rightarrow> Inl e
                   | Inr (vm1, out2) \<Rightarrow> run F (vm1\<lparr>ip_m := ip_m vm1 + 1\<rparr>) out2)))
      else Inr (Ok, vm, out))"
  by pat_completeness auto
termination
proof (relation "measure (\<lambda>(F, vm, out). get_length (chunk_m vm) - ip_m vm)")
  show "wf (measure (\<lambda>(F, vm, out). get_length (chunk_m vm) - ip_m vm))"
    by simp
next
  fix F :: "'d double_ops" and vm :: "'d VirtualMachine" and out out1 instr r vm1 out2
  assume "ip_m vm < get_length (chunk_m vm)"
    and "step F vm out1 instr = Inr r" and "(vm1, out2) = r"
  then show "((F, vm1\<lparr>ip_m := ip_m vm1 + 1\<rparr>, out2), (F, vm, out))
          \<in> measure (\<lambda>(F, vm, out). get_length (chunk_m vm) - ip_m vm)"
    using step_keeps [of F vm out1 instr vm1 out2] by auto
qed

declare run.simps [simp del]

text \<open>
  The chunk that \<^verbatim>\<open>main\<close> builds. The arguments are the \<^verbatim>\<open>double\<close> values of the literals
  \<^verbatim>\<open>1.2\<close>, \<^verbatim>\<open>3.4\<close> and \<^verbatim>\<open>5.6\<close>; the index that \<^verbatim>\<open>add\<close> returns is converted from
  \<^verbatim>\<open>size_t\<close> to the \<^verbatim>\<open>uint\<close> parameter of the constructor.
\<close>

definition main_chunk :: "'d \<Rightarrow> 'd \<Rightarrow> 'd \<Rightarrow> fault + 'd Chunk" where
  "main_chunk d1 d2 d3 =
     (let chunk0 = new_Chunk ''test chunk'';
          (chunk1, i1) = add_constant chunk0 d1
      in and_then (Chunk_write chunk1 (Instruction3 1 Constant (of_nat i1))) (\<lambda>chunk2.
         (let (chunk3, i2) = add_constant chunk2 d2
          in and_then (Chunk_write chunk3 (Instruction3 2 Constant (of_nat i2))) (\<lambda>chunk4.
             and_then (Chunk_write chunk4 (Instruction2 3 Add)) (\<lambda>chunk5.
             (let (chunk6, i3) = add_constant chunk5 d3
              in and_then (Chunk_write chunk6 (Instruction3 4 Constant (of_nat i3))) (\<lambda>chunk7.
                 and_then (Chunk_write chunk7 (Instruction2 5 Divide)) (\<lambda>chunk8.
                 and_then (Chunk_write chunk8 (Instruction2 6 Negate)) (\<lambda>chunk9.
                 Chunk_write chunk9 (Instruction2 7 Return))))))))))"

text \<open>\<^verbatim>\<open>main\<close>: the chunk, then \<^verbatim>\<open>VirtualMachine vm(&chunk); vm.run(std::cerr)\<close>.\<close>

definition main ::
  "'d double_ops \<Rightarrow> 'd \<Rightarrow> 'd \<Rightarrow> 'd \<Rightarrow> string
     \<Rightarrow> fault + (Result \<times> 'd VirtualMachine \<times> string)" where
  "main F d1 d2 d3 cerr =
     and_then (main_chunk d1 d2 d3) (\<lambda>chunk. run F (new_VirtualMachine chunk) cerr)"

section \<open>The doubles of the platform\<close>

text \<open>
  The source does not declare \<^verbatim>\<open>double\<close>: it is the binary64 format of IEEE 754, with the
  default rounding (to nearest, ties to even). This section is an executable instance of
  the parameter \<open>'d double_ops\<close>, used where a result depends on the value of an
  arithmetic expression.

  \<open>Finite s m e\<close> is the number \<open>(-1)\<^sup>s * m * 2\<^sup>e\<close> with \<open>m < 2\<^sup>5\<^sup>3\<close> and
  \<open>-1074 \<le> e \<le> 971\<close>, where \<open>2\<^sup>5\<^sup>2 \<le> m\<close> (a normal number) or \<open>e = -1074\<close> (a subnormal
  number or a zero). All NaNs are one value.
\<close>

datatype double = Finite bool nat int | Infinity bool | NaN

text \<open>The number of binary digits of a natural number.\<close>

fun width :: "nat \<Rightarrow> nat" where
  "width n = (if n = 0 then 0 else Suc (width (n div 2)))"

declare width.simps [simp del]

text \<open>The fraction \<open>(p / q) / 2\<^sup>e\<close> as numerator and denominator.\<close>

definition scaled :: "nat \<Rightarrow> nat \<Rightarrow> int \<Rightarrow> nat \<times> nat" where
  "scaled p q e = (if 0 \<le> e then (p, q * 2 ^ nat e) else (p * 2 ^ nat (- e), q))"

text \<open>
  The double nearest to \<open>(-1)\<^sup>s * p / q\<close> (\<open>0 < q\<close>). With \<open>k\<close> the difference of the
  widths, \<open>2\<^sup>k\<^sup>-\<^sup>1 < p / q < 2\<^sup>k\<^sup>+\<^sup>1\<close>, so \<open>l\<close> is the binary exponent of \<open>p / q\<close>; the
  quotient is cut to 53 bits (fewer below the normal range), rounded to nearest with
  ties to even, and overflows to infinity.
\<close>

definition round_to_double :: "bool \<Rightarrow> nat \<Rightarrow> nat \<Rightarrow> double" where
  "round_to_double s p q =
     (if p = 0 then Finite s 0 (- 1074)
      else
        (let k = int (width p) - int (width q);
             (n1, d1) = scaled p q k;
             l = (if d1 \<le> n1 then k else k - 1);
             e = max (l - 52) (- 1074);
             (n, d) = scaled p q e;
             m0 = n div d;
             r = n mod d;
             m = (if 2 * r < d then m0
                  else if d < 2 * r then m0 + 1
                  else if even m0 then m0 else m0 + 1);
             (m', e') = (if m = 2 ^ 53 then (2 ^ 52, e + 1) else (m, e))
         in if 971 < e' then Infinity s else Finite s m' e'))"

text \<open>
  The double of the decimal literal \<open>n * 10\<^sup>k\<close>, which the compiler rounds to nearest:
  \<^verbatim>\<open>1.2\<close> is \<open>literal 12 (- 1)\<close>.
\<close>

definition literal :: "nat \<Rightarrow> int \<Rightarrow> double" where
  "literal n k =
     (if 0 \<le> k then round_to_double False (n * 10 ^ nat k) 1
      else round_to_double False n (10 ^ nat (- k)))"

fun double_neg :: "double \<Rightarrow> double" where
  "double_neg (Finite s m e) = Finite (\<not> s) m e"
| "double_neg (Infinity s) = Infinity (\<not> s)"
| "double_neg NaN = NaN"

definition signed :: "bool \<Rightarrow> nat \<Rightarrow> int" where
  "signed s n = (if s then - int n else int n)"

text \<open>An exact sum of zero is \<open>+0\<close>, except that \<open>-0 + -0\<close> is \<open>-0\<close>.\<close>

fun double_add :: "double \<Rightarrow> double \<Rightarrow> double" where
  "double_add NaN y = NaN"
| "double_add x NaN = NaN"
| "double_add (Infinity s) (Infinity t) = (if s = t then Infinity s else NaN)"
| "double_add (Infinity s) (Finite t m e) = Infinity s"
| "double_add (Finite s m e) (Infinity t) = Infinity t"
| "double_add (Finite s1 m1 e1) (Finite s2 m2 e2) =
     (let e = min e1 e2;
          c = signed s1 (m1 * 2 ^ nat (e1 - e)) + signed s2 (m2 * 2 ^ nat (e2 - e))
      in if c = 0 then Finite (s1 \<and> s2) 0 (- 1074)
         else if 0 \<le> e then round_to_double (c < 0) (nat \<bar>c\<bar> * 2 ^ nat e) 1
         else round_to_double (c < 0) (nat \<bar>c\<bar>) (2 ^ nat (- e)))"

definition double_sub :: "double \<Rightarrow> double \<Rightarrow> double" where
  "double_sub x y = double_add x (double_neg y)"

fun double_mul :: "double \<Rightarrow> double \<Rightarrow> double" where
  "double_mul NaN y = NaN"
| "double_mul x NaN = NaN"
| "double_mul (Infinity s) (Infinity t) = Infinity (s \<noteq> t)"
| "double_mul (Infinity s) (Finite t m e) = (if m = 0 then NaN else Infinity (s \<noteq> t))"
| "double_mul (Finite s m e) (Infinity t) = (if m = 0 then NaN else Infinity (s \<noteq> t))"
| "double_mul (Finite s1 m1 e1) (Finite s2 m2 e2) =
     (if 0 \<le> e1 + e2 then round_to_double (s1 \<noteq> s2) (m1 * m2 * 2 ^ nat (e1 + e2)) 1
      else round_to_double (s1 \<noteq> s2) (m1 * m2) (2 ^ nat (- (e1 + e2))))"

text \<open>Division by zero is not an error: it gives an infinity, and \<open>0 / 0\<close> gives NaN.\<close>

fun double_div :: "double \<Rightarrow> double \<Rightarrow> double" where
  "double_div NaN y = NaN"
| "double_div x NaN = NaN"
| "double_div (Infinity s) (Infinity t) = NaN"
| "double_div (Infinity s) (Finite t m e) = Infinity (s \<noteq> t)"
| "double_div (Finite s m e) (Infinity t) = Finite (s \<noteq> t) 0 (- 1074)"
| "double_div (Finite s1 m1 e1) (Finite s2 m2 e2) =
     (if m2 = 0 then (if m1 = 0 then NaN else Infinity (s1 \<noteq> s2))
      else if e2 \<le> e1 then round_to_double (s1 \<noteq> s2) (m1 * 2 ^ nat (e1 - e2)) m2
      else round_to_double (s1 \<noteq> s2) m1 (m2 * 2 ^ nat (e2 - e1)))"

text \<open>
  The instance. The two renderings of a double as text stay parameters: \<open>os\<close> is what
  \<^verbatim>\<open>out << value\<close> writes and \<open>fmt\<close> what \<^verbatim>\<open>std::format\<close> produces.
\<close>

definition binary64 :: "(double \<Rightarrow> string) \<Rightarrow> (double \<Rightarrow> string) \<Rightarrow> double double_ops" where
  "binary64 os fmt =
     \<lparr>fadd = double_add, fsub = double_sub, fmul = double_mul, fdiv = double_div,
      fneg = double_neg, ostream_double = os, format_double = fmt\<rparr>"

text \<open>
  The characters that \<^verbatim>\<open>out << value\<close> writes for a double. The source sets neither a
  precision nor a float format on the stream, so the conversion is that of \<^verbatim>\<open>printf\<close> with
  \<^verbatim>\<open>%g\<close> and precision 6: the value is rounded to 6 significant decimal digits (to
  nearest, ties to even, from the exact binary value); with \<open>X\<close> the decimal exponent of
  the rounded value, the notation is fixed when \<open>-4 \<le> X < 6\<close> and scientific (with an
  exponent of at least two digits) otherwise; trailing zeros of the fraction are removed,
  and the point with them when no fraction is left. The sign of a NaN is not modelled.
\<close>

text \<open>The fraction \<open>(p / q) / 10\<^sup>e\<close> as numerator and denominator.\<close>

definition scaled10 :: "nat \<Rightarrow> nat \<Rightarrow> int \<Rightarrow> nat \<times> nat" where
  "scaled10 p q e = (if 0 \<le> e then (p, q * 10 ^ nat e) else (p * 10 ^ nat (- e), q))"

text \<open>
  The decimal exponent of \<open>p / q\<close> (\<open>0 < p\<close>, \<open>0 < q\<close>): with \<open>k\<close> the difference of the
  numbers of decimal digits, \<open>10\<^sup>k\<^sup>-\<^sup>1 < p / q < 10\<^sup>k\<^sup>+\<^sup>1\<close>.
\<close>

definition decimal_exponent :: "nat \<Rightarrow> nat \<Rightarrow> int" where
  "decimal_exponent p q =
     (let k = int (length (decimal p)) - int (length (decimal q));
          (n, d) = scaled10 p q k
      in if d \<le> n then k else k - 1)"

text \<open>
  \<open>p / q\<close> rounded to \<open>P\<close> significant decimal digits: the digits \<open>N\<close>
  (\<open>10\<^sup>P\<^sup>-\<^sup>1 \<le> N < 10\<^sup>P\<close>) and the decimal exponent \<open>X\<close> of the rounded value, which is
  \<open>N * 10\<^sup>X\<^sup>-\<^sup>P\<^sup>+\<^sup>1\<close>.
\<close>

definition significant :: "nat \<Rightarrow> nat \<Rightarrow> nat \<Rightarrow> nat \<times> int" where
  "significant P p q =
     (let x0 = decimal_exponent p q;
          (n, d) = scaled10 p q (x0 - (int P - 1));
          m0 = n div d;
          r = n mod d;
          N = (if 2 * r < d then m0
               else if d < 2 * r then m0 + 1
               else if even m0 then m0 else m0 + 1)
      in if N = 10 ^ P then (10 ^ (P - 1), x0 + 1) else (N, x0))"

definition strip_zeros :: "string \<Rightarrow> string" where
  "strip_zeros s = rev (dropWhile (\<lambda>c. c = CHR ''0'') (rev s))"

text \<open>The digits after the point, with the point, or nothing when they are all zeros.\<close>

definition fraction :: "string \<Rightarrow> string" where
  "fraction ds = (let f = strip_zeros ds in if f = [] then [] else ''.'' @ f)"

definition sign_text :: "bool \<Rightarrow> string" where
  "sign_text s = (if s then ''-'' else [])"

text \<open>\<^verbatim>\<open>%g\<close> with precision 6 for the positive number \<open>p / q\<close>.\<close>

definition general6 :: "nat \<Rightarrow> nat \<Rightarrow> string" where
  "general6 p q =
     (let (N, X) = significant 6 p q;
          D = decimal N
      in if - 4 \<le> X \<and> X < 6 then
           (if 0 \<le> X then take (nat X + 1) D @ fraction (drop (nat X + 1) D)
            else ''0.'' @ replicate (nat (- X) - 1) (CHR ''0'') @ strip_zeros D)
         else take 1 D @ fraction (drop 1 D) @ ''e'' @ (if X < 0 then ''-'' else ''+'')
                @ right_align (CHR ''0'') 2 (decimal (nat \<bar>X\<bar>)))"

fun ostream_text :: "double \<Rightarrow> string" where
  "ostream_text NaN = ''nan''"
| "ostream_text (Infinity s) = sign_text s @ ''inf''"
| "ostream_text (Finite s m e) =
     sign_text s @ (if m = 0 then ''0'' else (let (p, q) = scaled m 1 (- e) in general6 p q))"

section \<open>The instructions of a producer\<close>

text \<open>
  The instructions that the two constructors build from an enumerator other than
  \<^verbatim>\<open>_Count\<close> when the operand goes with \<open>Constant\<close> and with no other opcode:
  \<^verbatim>\<open>Instruction(line, Constant, index)\<close> and \<^verbatim>\<open>Instruction(line, opcode)\<close>.
\<close>

definition constructible :: "Instruction \<Rightarrow> bool" where
  "constructible i =
     (case opcode_m i of
        Constant \<Rightarrow> index_m i \<noteq> None
      | Count \<Rightarrow> False
      | _ \<Rightarrow> index_m i = None)"

text \<open>The chunk that \<open>main_chunk\<close> returns (lemma \<open>main_chunk_value\<close>).\<close>

definition test_chunk :: "'d \<Rightarrow> 'd \<Rightarrow> 'd \<Rightarrow> 'd Chunk" where
  "test_chunk d1 d2 d3 =
     \<lparr>name_m = ''test chunk'', lines_m = [1, 2, 3, 4, 5, 6, 7],
      codes_m = [1, 257, 2, 513, 5, 6, 0],
      constant_pool_m = \<lparr>constants_m = [d1, d2, d3]\<rparr>\<rparr>"

section \<open>Properties of the instruction encoding\<close>

lemma low_byte_mask: "(255 :: 32 word) = mask 8"
  by (simp add: mask_eq_exp_minus_1)

lemma field_of_word: "drop_bit 8 ((1 :: 32 word) OR push_bit 8 (ucast (x :: 24 word))) = ucast x"
  by (rule bit_word_eqI) (auto simp: bit_simps dest: bit_imp_le_length)

lemma tag_of_word: "((1 :: 32 word) OR push_bit 8 (ucast (x :: 24 word))) AND 255 = 1"
  unfolding low_byte_mask by (rule bit_word_eqI) (auto simp: bit_simps)

lemma field_widen_narrow: "(ucast (ucast (x :: 24 word) :: 32 word) :: 24 word) = x"
  by (rule bit_word_eqI) (auto simp: bit_simps dest: bit_imp_le_length)

lemma unat_field: "unat (ucast (i :: 32 word) :: 24 word) = unat i mod 2 ^ 24"
  by (simp add: unsigned_ucast_eq take_bit_eq_mod)

lemma deserialize_serialize_plain:
  "opcode \<noteq> Constant \<Longrightarrow> opcode \<noteq> Count \<Longrightarrow>
   and_then (serialize (Instruction2 line opcode)) (\<lambda>(l, w). deserialize l w)
     = Inr (Instruction2 line opcode)"
  by (cases opcode)
    (simp_all add: and_then_def serialize_def deserialize_def Instruction2_def opcode_of_byte_def)

lemma serialize_Constant:
  "serialize (Instruction3 line Constant index)
     = Inr (line, 1 OR push_bit 8 (ucast (ucast index :: 24 word)))"
  by (simp add: serialize_def Instruction3_def)

lemma deserialize_Constant_word:
  "deserialize line (1 OR push_bit 8 (ucast (x :: 24 word)))
     = Inr \<lparr>line_m = line, opcode_m = Constant, index_m = Some x\<rparr>"
proof -
  have "opcode_of_byte (ucast (((1 :: 32 word) OR push_bit 8 (ucast x)) AND 255)) = Some Constant"
    unfolding tag_of_word by (simp add: opcode_of_byte_def)
  then show ?thesis
    unfolding deserialize_def Instruction3_def field_of_word
    by (simp add: field_widen_narrow)
qed

lemma deserialize_serialize_Constant:
  "and_then (serialize (Instruction3 line Constant index)) (\<lambda>(l, w). deserialize l w)
     = Inr (Instruction3 line Constant index)"
  unfolding serialize_Constant and_then_def
  by (simp add: deserialize_Constant_word Instruction3_def)

text \<open>
  C1. For a known opcode other than \<open>Constant\<close>, built without operand, and for
  \<open>Constant\<close> with an operand index from 0 to 16,777,215, on any line: serializing the
  instruction and deserializing the resulting (line, word) pair returns the original
  instruction (same line, same opcode, same operand member), and the operand read back
  from a \<open>Constant\<close> instruction is the index it was built with.
\<close>

theorem deserialize_serialize_roundtrip:
  "(opcode \<noteq> Constant \<and> opcode \<noteq> Count \<longrightarrow>
      and_then (serialize (Instruction2 line opcode)) (\<lambda>(l, w). deserialize l w)
        = Inr (Instruction2 line opcode)) \<and>
   (unat index < 2 ^ 24 \<longrightarrow>
      and_then (serialize (Instruction3 line Constant index)) (\<lambda>(l, w). deserialize l w)
        = Inr (Instruction3 line Constant index) \<and>
      get_constant_index (Instruction3 line Constant index) = Inr (unat index))"
proof -
  have "unat index < 2 ^ 24 \<Longrightarrow>
      get_constant_index (Instruction3 line Constant index) = Inr (unat index)"
    by (simp add: get_constant_index_def Instruction3_def unat_field)
  then show ?thesis
    by (simp add: deserialize_serialize_plain deserialize_serialize_Constant)
qed

theorem deserialize_serialize_roundtrip_witness:
  "and_then (serialize (Instruction2 7 Subtract)) (\<lambda>(l, w). deserialize l w)
     = Inr (Instruction2 7 Subtract) \<and>
   and_then (serialize (Instruction3 7 Constant 16777215)) (\<lambda>(l, w). deserialize l w)
     = Inr (Instruction3 7 Constant 16777215) \<and>
   get_constant_index (Instruction3 7 Constant 16777215) = Inr 16777215"
  using deserialize_serialize_roundtrip [where opcode = Subtract and line = 7 and index = 16777215]
  by simp

lemma low_byte_cast: "unat (ucast ((bytes :: 32 word) AND 255) :: 8 word) = unat (bytes AND 255)"
  unfolding low_byte_mask
  by (simp add: unsigned_ucast_eq unsigned_take_bit_eq flip: take_bit_eq_mask)

lemma opcode_of_byte_unat:
  "opcode_of_byte b =
     (if unat b = 0 then Some Return
      else if unat b = 1 then Some Constant
      else if unat b = 2 then Some Add
      else if unat b = 3 then Some Subtract
      else if unat b = 4 then Some Multiply
      else if unat b = 5 then Some Divide
      else if unat b = 6 then Some Negate
      else if unat b = 7 then Some Count
      else None)"
  unfolding opcode_of_byte_def
  by (simp add: word_unat_eq_iff)

text \<open>
  C2. What \<open>deserialize\<close> does with a word whose low byte is not one of the tags 0 to 6:
  for the tag 7 (\<^verbatim>\<open>_Count\<close>) it fails with the invalid-opcode diagnostic; for a low byte
  from 8 to 255 it signals nothing: no case of the switch is taken and control reaches
  the end of the function (undefined behaviour). The specification asks for the invalid-opcode
  failure in both cases.
\<close>

theorem deserialize_unknown_tag:
  "(unat (bytes AND 0xff) = 7 \<longrightarrow> deserialize line bytes = Inl InvalidOpcode) \<and>
   (7 < unat (bytes AND 0xff) \<longrightarrow> deserialize line bytes = Inl UndefinedBehaviour)"
  unfolding deserialize_def opcode_of_byte_unat low_byte_cast
  by simp

theorem deserialize_unknown_tag_witness:
  "deserialize 1 0x107 = Inl InvalidOpcode \<and> deserialize 1 0x108 = Inl UndefinedBehaviour"
  using deserialize_unknown_tag [of "0x107" 1] deserialize_unknown_tag [of "0x108" 1]
  by simp

text \<open>
  C10. The three-argument constructor stores the index modulo \<open>2\<^sup>2\<^sup>4\<close>, whatever the
  opcode. For a \<open>Constant\<close> instruction so built, \<open>serialize\<close> returns a word whose low
  8 bits are the tag of \<open>Constant\<close>, and deserializing that word gives an instruction
  whose operand is the index modulo \<open>2\<^sup>2\<^sup>4\<close>.
\<close>

theorem operand_truncated:
  "get_constant_index (Instruction3 line opcode index) = Inr (unat index mod 2 ^ 24) \<and>
   (\<exists>w. serialize (Instruction3 line Constant index) = Inr (line, w) \<and>
        w AND 0xff = ucast (opcode_tag Constant) \<and>
        and_then (deserialize line w) get_constant_index = Inr (unat index mod 2 ^ 24))"
proof -
  have g: "\<And>op. get_constant_index (Instruction3 line op index) = Inr (unat index mod 2 ^ 24)"
    by (simp add: get_constant_index_def Instruction3_def unat_field)
  have d: "deserialize line (1 OR push_bit 8 (ucast (ucast index :: 24 word)))
             = Inr (Instruction3 line Constant index)"
    by (simp add: deserialize_Constant_word Instruction3_def)
  show ?thesis
    unfolding serialize_Constant
    by (simp add: g d and_then_def tag_of_word)
qed

section \<open>Properties of the constant pool and the chunk\<close>

text \<open>
  C6. \<open>get\<close> with an offset that is not below the number of constants, and \<open>read\<close>
  with an offset that is not below the length of the chunk, fail with the out-of-range
  exception. Both are const member functions: they return no value then and change
  neither the pool nor the chunk.
\<close>

theorem out_of_range_access:
  "(length (constants_m p) \<le> n \<longrightarrow> get p n = Inl IndexOutOfRange) \<and>
   (get_length c \<le> n \<longrightarrow> read c n = Inl IndexOutOfRange)"
  by (simp add: get_def read_def get_length_def)

theorem out_of_range_access_witness:
  "get \<lparr>constants_m = [literal 12 (- 1)]\<rparr> 7 = Inl IndexOutOfRange \<and>
   read (test_chunk (literal 12 (- 1)) (literal 34 (- 1)) (literal 56 (- 1))) 7
     = Inl IndexOutOfRange"
  using out_of_range_access [where p = "\<lparr>constants_m = [literal 12 (- 1)]\<rparr>" and n = 7
      and c = "test_chunk (literal 12 (- 1)) (literal 34 (- 1)) (literal 56 (- 1))"]
  by (simp add: test_chunk_def get_length_def)

lemma constructible_cases:
  "constructible i =
     ((\<exists>line opcode. opcode \<noteq> Constant \<and> opcode \<noteq> Count \<and> i = Instruction2 line opcode) \<or>
      (\<exists>line x. i = \<lparr>line_m = line, opcode_m = Constant, index_m = Some x\<rparr>))"
  by (cases i; cases "opcode_m i") (auto simp: constructible_def Instruction2_def)

lemma serialize_deserialize_constructible:
  assumes "constructible i"
  shows "\<exists>line code. serialize i = Inr (line, code) \<and> deserialize line code = Inr i"
proof -
  from assms consider
    (plain) line opcode where "opcode \<noteq> Constant" "opcode \<noteq> Count" "i = Instruction2 line opcode"
  | (const) line x where "i = \<lparr>line_m = line, opcode_m = Constant, index_m = Some x\<rparr>"
    unfolding constructible_cases by blast
  then show ?thesis
  proof cases
    case plain
    then show ?thesis
      using deserialize_serialize_plain [of opcode line]
      by (auto simp: and_then_def split: sum.splits)
  next
    case const
    then have "serialize i = Inr (line, 1 OR push_bit 8 (ucast x))"
      by (simp add: serialize_def)
    then show ?thesis
      using const by (simp add: deserialize_Constant_word)
  qed
qed

lemma Chunk_write_constructible:
  assumes "constructible x" and "length (lines_m c) = length (codes_m c)"
  shows "\<exists>c'. Chunk_write c x = Inr c' \<and>
           length (lines_m c') = length (codes_m c') \<and>
           get_length c' = get_length c + 1 \<and>
           read c' (get_length c) = Inr x \<and>
           (\<forall>k < get_length c. read c' k = read c k)"
proof -
  from serialize_deserialize_constructible [OF assms(1)]
  obtain line code where s: "serialize x = Inr (line, code)" and d: "deserialize line code = Inr x"
    by blast
  show ?thesis
    using assms(2) d
    by (simp add: Chunk_write_def s get_length_def read_def nth_append)
qed

lemma write_all_snoc:
  "write_all c (xs @ [x]) = and_then (write_all c xs) (\<lambda>c'. Chunk_write c' x)"
  by (induction xs arbitrary: c) (auto simp: and_then_def split: sum.splits)

lemma write_all_constructible:
  assumes "\<forall>i \<in> set instrs. constructible i" and "length (lines_m c) = length (codes_m c)"
  shows "\<exists>c'. write_all c instrs = Inr c' \<and>
           length (lines_m c') = length (codes_m c') \<and>
           get_length c' = get_length c + length instrs \<and>
           (\<forall>k < length instrs. read c' (get_length c + k) = Inr (instrs ! k)) \<and>
           (\<forall>k < get_length c. read c' k = read c k)"
  using assms(1)
proof (induction instrs rule: rev_induct)
  case Nil
  then show ?case using assms(2) by simp
next
  case (snoc x xs)
  then obtain c1 where c1: "write_all c xs = Inr c1"
      "length (lines_m c1) = length (codes_m c1)"
      "get_length c1 = get_length c + length xs"
      "\<forall>k < length xs. read c1 (get_length c + k) = Inr (xs ! k)"
      "\<forall>k < get_length c. read c1 k = read c k"
    by auto
  from snoc.prems have "constructible x" by simp
  from Chunk_write_constructible [OF this c1(2)]
  obtain c2 where c2: "Chunk_write c1 x = Inr c2"
      "length (lines_m c2) = length (codes_m c2)"
      "get_length c2 = get_length c1 + 1"
      "read c2 (get_length c1) = Inr x"
      "\<forall>k < get_length c1. read c2 k = read c1 k"
    by blast
  have "write_all c (xs @ [x]) = Inr c2"
    by (simp add: write_all_snoc c1(1) c2(1) and_then_def)
  moreover have "read c2 (get_length c + k) = Inr ((xs @ [x]) ! k)" if "k < length (xs @ [x])" for k
  proof (cases "k < length xs")
    case True
    then show ?thesis using c1(3,4) c2(5) by (simp add: nth_append)
  next
    case False
    with that have "k = length xs" by simp
    then show ?thesis using c1(3) c2(4) by (simp add: nth_append)
  qed
  moreover have "read c2 k = read c k" if "k < get_length c" for k
    using that c1(3,5) c2(5) by simp
  ultimately show ?case
    using c2(2,3) c1(3) by auto
qed

text \<open>
  C5. The line numbers and the encoded words of a chunk have the same length: in a new
  chunk, after adding a constant, and after any sequence of writes. Writing \<open>n\<close>
  constructible instructions to a chunk whose two sequences have the same length
  succeeds, makes the chunk \<open>n\<close> longer, \<open>read\<close> at the \<open>k\<close>-th new position returns the
  \<open>k\<close>-th instruction written, and \<open>read\<close> at the earlier positions returns what it
  returned before. A new chunk has length 0, so after \<open>n\<close> writes its length is \<open>n\<close> and
  \<open>read k\<close> is the \<open>k\<close>-th instruction.
\<close>

theorem chunk_write_read:
  "length (lines_m (new_Chunk name)) = length (codes_m (new_Chunk name)) \<and>
   get_length (new_Chunk name) = 0 \<and>
   (length (lines_m c) = length (codes_m c) \<longrightarrow>
      length (lines_m (fst (add_constant c d))) = length (codes_m (fst (add_constant c d))) \<and>
      get_length (fst (add_constant c d)) = get_length c) \<and>
   (length (lines_m c) = length (codes_m c) \<and> (\<forall>i \<in> set instrs. constructible i) \<longrightarrow>
      (\<exists>c'. write_all c instrs = Inr c' \<and>
         length (lines_m c') = length (codes_m c') \<and>
         get_length c' = get_length c + length instrs \<and>
         (\<forall>k < length instrs. read c' (get_length c + k) = Inr (instrs ! k)) \<and>
         (\<forall>k < get_length c. read c' k = read c k)))"
proof -
  have "length (lines_m (fst (add_constant c d))) = length (lines_m c)"
    and "codes_m (fst (add_constant c d)) = codes_m c"
    by (simp_all add: add_constant_def add_def Let_def split: prod.splits)
  then show ?thesis
    using write_all_constructible [of instrs c]
    by (auto simp: new_Chunk_def get_length_def)
qed

theorem chunk_write_read_witness:
  "\<exists>c'. write_all (new_Chunk ''test chunk'' :: double Chunk)
           [Instruction3 1 Constant 0, Instruction2 3 Add, Instruction2 7 Return] = Inr c' \<and>
        length (lines_m c') = length (codes_m c') \<and>
        get_length c' = 3 \<and>
        read c' 0 = Inr (Instruction3 1 Constant 0) \<and>
        read c' 1 = Inr (Instruction2 3 Add) \<and>
        read c' 2 = Inr (Instruction2 7 Return)"
proof -
  let ?c = "new_Chunk ''test chunk'' :: double Chunk"
  let ?is = "[Instruction3 1 Constant 0, Instruction2 3 Add, Instruction2 7 Return]"
  have h: "length (lines_m ?c) = length (codes_m ?c) \<and> (\<forall>i \<in> set ?is. constructible i)"
    by (simp add: new_Chunk_def constructible_def Instruction2_def Instruction3_def)
  from chunk_write_read [of "''test chunk''" ?c "literal 12 (- 1)" ?is] h
  obtain c' where c': "write_all ?c ?is = Inr c'"
      "length (lines_m c') = length (codes_m c')"
      "get_length c' = get_length ?c + length ?is"
      "\<forall>k < length ?is. read c' (get_length ?c + k) = Inr (?is ! k)"
    by blast
  have l: "get_length ?c = 0"
    by (simp add: new_Chunk_def get_length_def)
  have r: "read c' k = Inr (?is ! k)" if "k < 3" for k
    using c'(4) l that by simp
  from r [of 0] r [of 1] r [of 2] c'(1,2,3) l show ?thesis
    by simp
qed

lemma main_chunk_value: "main_chunk d1 d2 d3 = Inr (test_chunk d1 d2 d3)"
  by (simp add: main_chunk_def test_chunk_def new_Chunk_def new_ConstantPool_def
      add_constant_def add_def get_constant_pool_def Chunk_write_def serialize_def
      Instruction2_def Instruction3_def and_then_def)

lemma read_test_chunk:
  "read (test_chunk d1 d2 d3) 0 = Inr (Instruction3 1 Constant 0)"
  "read (test_chunk d1 d2 d3) 1 = Inr (Instruction3 2 Constant 1)"
  "read (test_chunk d1 d2 d3) (Suc 0) = Inr (Instruction3 2 Constant 1)"
  "read (test_chunk d1 d2 d3) 2 = Inr (Instruction2 3 Add)"
  "read (test_chunk d1 d2 d3) 3 = Inr (Instruction3 4 Constant 2)"
  "read (test_chunk d1 d2 d3) 4 = Inr (Instruction2 5 Divide)"
  "read (test_chunk d1 d2 d3) 5 = Inr (Instruction2 6 Negate)"
  "read (test_chunk d1 d2 d3) 6 = Inr (Instruction2 7 Return)"
  by (simp_all add: test_chunk_def read_def deserialize_def opcode_of_byte_def
      Instruction2_def Instruction3_def)

section \<open>Properties of the disassembly\<close>

lemma replicate_numeral: "replicate (numeral k) x = x # replicate (pred_numeral k) x"
  by (simp add: numeral_eq_Suc)

lemma digits:
  "decimal 0 = ''0''" "decimal 1 = ''1''" "decimal 2 = ''2''" "decimal 3 = ''3''"
  "decimal 4 = ''4''" "decimal 5 = ''5''" "decimal 6 = ''6''" "decimal 7 = ''7''"
  "binary 0 = ''0''" "binary 1 = ''1''" "binary 2 = ''10''" "binary 5 = ''101''"
  "binary 6 = ''110''" "decimal (Suc 0) = ''1''" "binary (Suc 0) = ''1''"
  "binary 257 = ''100000001''" "binary 513 = ''1000000001''"
  by (simp_all add: decimal.simps binary.simps)

lemma disassemble_test_chunk:
  "disassemble_at F (test_chunk d1 d2 d3) out 0 = Inr (out @
     ''000000  00001  00000000000000000000000000000001    CONSTANT       0  ''
     @ right_align (CHR '' '') 10 (format_double F d1) @ endl)"
  "disassemble_at F (test_chunk d1 d2 d3) out 1 = Inr (out @
     ''000001  00002  00000000000000000000000100000001    CONSTANT       1  ''
     @ right_align (CHR '' '') 10 (format_double F d2) @ endl)"
  "disassemble_at F (test_chunk d1 d2 d3) out (Suc 0) = Inr (out @
     ''000001  00002  00000000000000000000000100000001    CONSTANT       1  ''
     @ right_align (CHR '' '') 10 (format_double F d2) @ endl)"
  "disassemble_at F (test_chunk d1 d2 d3) out 2 = Inr (out @
     ''000002  00003  00000000000000000000000000000010         ADD  '' @ endl)"
  "disassemble_at F (test_chunk d1 d2 d3) out 3 = Inr (out @
     ''000003  00004  00000000000000000000001000000001    CONSTANT       3  ''
     @ right_align (CHR '' '') 10 (format_double F d3) @ endl)"
  "disassemble_at F (test_chunk d1 d2 d3) out 4 = Inr (out @
     ''000004  00005  00000000000000000000000000000101      DIVIDE  '' @ endl)"
  "disassemble_at F (test_chunk d1 d2 d3) out 5 = Inr (out @
     ''000005  00006  00000000000000000000000000000110      NEGATE  '' @ endl)"
  "disassemble_at F (test_chunk d1 d2 d3) out 6 = Inr (out @
     ''000006  00007  00000000000000000000000000000000      RETURN  '' @ endl)"
  unfolding disassemble_at_def read_test_chunk
  by (simp_all add: test_chunk_def Instruction2_def Instruction3_def get_line_def get_opcode_def
      get_constant_index_def get_constant_pool_def get_def digits right_align_def
      replicate_numeral Let_def)

text \<open>
  The line that \<open>disassemble_at\<close> writes for a \<open>Constant\<close> instruction, in any chunk:
  the fifth field is the offset of the instruction in the chunk (the parameter
  \<^verbatim>\<open>index\<close>, as in the first field), not the operand \<open>k\<close> of the instruction.
\<close>

lemma disassemble_at_Constant:
  assumes "index < length (codes_m c)" and "read c index = Inr instr"
    and "get_opcode instr = Constant" and "get_constant_index instr = Inr k"
    and "get (get_constant_pool c) k = Inr v"
  shows "disassemble_at F c out index =
     Inr (out @ right_align (CHR ''0'') 6 (decimal index) @ ''  ''
            @ right_align (CHR ''0'') 5 (decimal (unat (get_line instr))) @ ''  ''
            @ right_align (CHR ''0'') 32 (binary (unat (codes_m c ! index))) @ ''  ''
            @ right_align (CHR '' '') 10 ''CONSTANT'' @ ''  ''
            @ right_align (CHR '' '') 6 (decimal index) @ ''  ''
            @ right_align (CHR '' '') 10 (format_double F v) @ endl)"
  using assms by (simp add: disassemble_at_def Let_def)

text \<open>
  C8. The disassembly of the instruction at offset 3 of the chunk of \<open>main\<close>, the
  \<open>Constant\<close> instruction whose operand is 2: after the four common fields, the field of
  width 6 holds 3, the offset of the instruction, and not 2, the operand the specification asks
  for; the field of width 10 holds the constant at index 2 of the pool.
\<close>

theorem disassemble_Constant_prints_offset:
  "and_then (main_chunk d1 d2 d3) (\<lambda>c. and_then (read c 3) get_constant_index) = Inr 2 \<and>
   and_then (main_chunk d1 d2 d3) (\<lambda>c. get (get_constant_pool c) 2) = Inr d3 \<and>
   and_then (main_chunk d1 d2 d3) (\<lambda>c. disassemble_at F c out 3) =
     Inr (out @ ''000003  00004  00000000000000000000001000000001    CONSTANT''
            @ ''  '' @ ''     3'' @ ''  ''
            @ right_align (CHR '' '') 10 (format_double F d3) @ endl)"
proof -
  have "and_then (read (test_chunk d1 d2 d3) 3) get_constant_index = Inr 2"
    by (simp add: read_test_chunk and_then_def get_constant_index_def Instruction3_def)
  moreover have "get (get_constant_pool (test_chunk d1 d2 d3)) 2 = Inr d3"
    by (simp add: get_def get_constant_pool_def test_chunk_def)
  ultimately show ?thesis
    by (simp add: main_chunk_value and_then_def disassemble_test_chunk)
qed

section \<open>Properties of the virtual machine\<close>

lemma pop_push: "pop (push vm v) = Inr (v, vm)"
  by (simp add: pop_def push_def)

lemma binary_op_push: "binary_op f (push (push vm a) b) out = Inr (push vm (f a b), out)"
  by (simp add: binary_op_def pop_push)

text \<open>
  C3. For all doubles \<open>a\<close> and \<open>b\<close> and every machine (so every starting stack): pushing
  appends to the stack; after pushing \<open>a\<close> and then \<open>b\<close> the first pop returns \<open>b\<close> (the
  right operand) and the second \<open>a\<close> (the left operand); \<open>step\<close> on an instruction with
  opcode \<open>Subtract\<close> leaves the starting stack with \<open>a - b\<close> pushed, on \<open>Divide\<close> with
  \<open>a / b\<close>, on \<open>Add\<close> with \<open>a + b\<close> and on \<open>Multiply\<close> with \<open>a * b\<close>, and writes nothing.
  The result of \<open>Divide\<close> is the quotient of the platform for every \<open>b\<close>: \<open>step\<close> has no
  test for zero.
\<close>

theorem binary_operand_order:
  "stack_m (push vm v) = stack_m vm @ [v] \<and>
   pop (push (push vm a) b) = Inr (b, push vm a) \<and>
   pop (push vm a) = Inr (a, vm) \<and>
   step F (push (push vm a) b) out (instr\<lparr>opcode_m := Subtract\<rparr>)
     = Inr (push vm (fsub F a b), out) \<and>
   step F (push (push vm a) b) out (instr\<lparr>opcode_m := Divide\<rparr>)
     = Inr (push vm (fdiv F a b), out) \<and>
   step F (push (push vm a) b) out (instr\<lparr>opcode_m := Add\<rparr>)
     = Inr (push vm (fadd F a b), out) \<and>
   step F (push (push vm a) b) out (instr\<lparr>opcode_m := Multiply\<rparr>)
     = Inr (push vm (fmul F a b), out)"
  by (simp add: step_def get_opcode_def binary_op_push pop_push) (simp add: push_def)

text \<open>
  C7, as amended. For each of the opcodes \<open>Add\<close>, \<open>Subtract\<close>, \<open>Multiply\<close>, \<open>Divide\<close> and
  \<open>Negate\<close>, \<open>step\<close> on a machine whose stack is empty is undefined behaviour: \<^verbatim>\<open>pop_\<close>
  calls \<^verbatim>\<open>back()\<close> and \<^verbatim>\<open>pop_back()\<close> on the empty vector without a test. No condition is
  signalled, and nothing is known about the stack afterwards.
\<close>

theorem empty_stack_undefined:
  "stack_m vm = [] \<and> opcode \<in> {Add, Subtract, Multiply, Divide, Negate} \<longrightarrow>
   step F vm out (instr\<lparr>opcode_m := opcode\<rparr>) = Inl UndefinedBehaviour"
  by (auto simp: step_def get_opcode_def binary_op_def pop_def)

theorem empty_stack_undefined_witness:
  "stack_m (new_VirtualMachine (new_Chunk ''test chunk'') :: double VirtualMachine) = [] \<and>
   step (binary64 (\<lambda>d. []) (\<lambda>d. [])) (new_VirtualMachine (new_Chunk ''test chunk'')) []
     (Instruction2 1 Negate) = Inl UndefinedBehaviour"
  using empty_stack_undefined [of "new_VirtualMachine (new_Chunk ''test chunk'')" Negate
      "binary64 (\<lambda>d. []) (\<lambda>d. [])" "[]" "Instruction2 1 Negate"]
  by (simp add: new_VirtualMachine_def Instruction2_def)

text \<open>
  C7, as stated, fails: \<open>step\<close> on \<open>Add\<close> with an empty stack does not end in a fault
  that the program signals.
\<close>

theorem empty_stack_not_signalled:
  "\<not> (case step (binary64 (\<lambda>d. []) (\<lambda>d. [])) (new_VirtualMachine (new_Chunk ''test chunk''))
             [] (Instruction2 1 Add) of
         Inl e \<Rightarrow> signalled e
       | Inr r \<Rightarrow> False)"
  by (simp add: step_def get_opcode_def Instruction2_def binary_op_def pop_def
      new_VirtualMachine_def)

text \<open>
  C9. Whenever \<open>run\<close> returns, the result is \<open>Ok\<close>: every fault leaves \<open>run\<close> without a
  return value, and \<open>step\<close> returns no result.
\<close>

theorem run_returns_Ok:
  "run F vm out = Inr (r, vm', out') \<Longrightarrow> r = Ok"
proof (induction F vm out rule: run.induct)
  case (1 F vm out)
  show ?case
  proof (cases "ip_m vm < get_length (chunk_m vm)")
    case False
    with "1.prems" show ?thesis by (simp add: run.simps)
  next
    case True
    with "1.prems" obtain out1 instr vm1 out2 where
      "dump F vm out = Inr out1" "read (chunk_m vm) (ip_m vm) = Inr instr"
      "step F vm out1 instr = Inr (vm1, out2)"
      "run F (vm1\<lparr>ip_m := ip_m vm1 + 1\<rparr>) out2 = Inr (r, vm', out')"
      by (subst (asm) run.simps) (auto split: sum.splits)
    with True "1.IH" show ?thesis by blast
  qed
qed

lemmas exec =
  dump_def disassemble_test_chunk read_test_chunk step_def get_opcode_def
  Instruction2_def Instruction3_def get_constant_index_def get_constant_pool_def get_def
  binary_op_def pop_def push_def

text \<open>The run of \<open>main\<close>, for any doubles and any arithmetic: the result and all the output.\<close>

lemma run_test_chunk:
  "run F (new_VirtualMachine (test_chunk d1 d2 d3)) cerr =
     Inr (Ok, \<lparr>chunk_m = test_chunk d1 d2 d3, ip_m = 7, stack_m = []\<rparr>,
       cerr
       @ ''[ ]'' @ endl
       @ ''000000  00001  00000000000000000000000000000001    CONSTANT       0  ''
       @ right_align (CHR '' '') 10 (format_double F d1) @ endl
       @ ''[ '' @ ostream_double F d1 @ '' ]'' @ endl
       @ ''000001  00002  00000000000000000000000100000001    CONSTANT       1  ''
       @ right_align (CHR '' '') 10 (format_double F d2) @ endl
       @ ''[ '' @ ostream_double F d1 @ '' '' @ ostream_double F d2 @ '' ]'' @ endl
       @ ''000002  00003  00000000000000000000000000000010         ADD  '' @ endl
       @ ''[ '' @ ostream_double F (fadd F d1 d2) @ '' ]'' @ endl
       @ ''000003  00004  00000000000000000000001000000001    CONSTANT       3  ''
       @ right_align (CHR '' '') 10 (format_double F d3) @ endl
       @ ''[ '' @ ostream_double F (fadd F d1 d2) @ '' '' @ ostream_double F d3 @ '' ]'' @ endl
       @ ''000004  00005  00000000000000000000000000000101      DIVIDE  '' @ endl
       @ ''[ '' @ ostream_double F (fdiv F (fadd F d1 d2) d3) @ '' ]'' @ endl
       @ ''000005  00006  00000000000000000000000000000110      NEGATE  '' @ endl
       @ ''[ '' @ ostream_double F (fneg F (fdiv F (fadd F d1 d2) d3)) @ '' ]'' @ endl
       @ ''000006  00007  00000000000000000000000000000000      RETURN  '' @ endl
       @ ostream_double F (fneg F (fdiv F (fadd F d1 d2) d3)) @ endl)"
proof -
  let ?C = "test_chunk d1 d2 d3"
  let ?vm = "\<lambda>k st. \<lparr>chunk_m = ?C, ip_m = k, stack_m = st\<rparr>"
  have len: "get_length ?C = 7"
    by (simp add: get_length_def test_chunk_def)
  have pool: "constants_m (constant_pool_m ?C) = [d1, d2, d3]"
    by (simp add: test_chunk_def)
  have iter: "run F (?vm k st) out = run F (?vm k' st') out'"
    if "k < 7" and "k' = k + 1"
      and "and_then (dump F (?vm k st) out) (\<lambda>out1.
          and_then (read ?C k) (\<lambda>instr. step F (?vm k st) out1 instr)) = Inr (?vm k st', out')"
    for k k' st st' out out'
    using that by (subst run.simps) (auto simp: len and_then_def split: sum.splits)
  let ?a = "fadd F d1 d2"
  let ?q = "fdiv F ?a d3"
  let ?n = "fneg F ?q"
  have "run F (?vm 0 []) cerr = run F (?vm 1 [d1]) (cerr @ ''[ ]'' @ endl
       @ ''000000  00001  00000000000000000000000000000001    CONSTANT       0  ''
       @ right_align (CHR '' '') 10 (format_double F d1) @ endl)" (is "_ = run F _ ?out1")
    by (rule iter) (simp_all add: exec pool and_then_def)
  also have "\<dots> = run F (?vm 2 [d1, d2]) (?out1 @ ''[ '' @ ostream_double F d1 @ '' ]'' @ endl
       @ ''000001  00002  00000000000000000000000100000001    CONSTANT       1  ''
       @ right_align (CHR '' '') 10 (format_double F d2) @ endl)" (is "_ = run F _ ?out2")
    by (rule iter) (simp_all add: exec pool and_then_def)
  also have "\<dots> = run F (?vm 3 [?a]) (?out2
       @ ''[ '' @ ostream_double F d1 @ '' '' @ ostream_double F d2 @ '' ]'' @ endl
       @ ''000002  00003  00000000000000000000000000000010         ADD  '' @ endl)"
      (is "_ = run F _ ?out3")
    by (rule iter) (simp_all add: exec pool and_then_def)
  also have "\<dots> = run F (?vm 4 [?a, d3]) (?out3 @ ''[ '' @ ostream_double F ?a @ '' ]'' @ endl
       @ ''000003  00004  00000000000000000000001000000001    CONSTANT       3  ''
       @ right_align (CHR '' '') 10 (format_double F d3) @ endl)" (is "_ = run F _ ?out4")
    by (rule iter) (simp_all add: exec pool and_then_def)
  also have "\<dots> = run F (?vm 5 [?q]) (?out4
       @ ''[ '' @ ostream_double F ?a @ '' '' @ ostream_double F d3 @ '' ]'' @ endl
       @ ''000004  00005  00000000000000000000000000000101      DIVIDE  '' @ endl)"
      (is "_ = run F _ ?out5")
    by (rule iter) (simp_all add: exec pool and_then_def)
  also have "\<dots> = run F (?vm 6 [?n]) (?out5 @ ''[ '' @ ostream_double F ?q @ '' ]'' @ endl
       @ ''000005  00006  00000000000000000000000000000110      NEGATE  '' @ endl)"
      (is "_ = run F _ ?out6")
    by (rule iter) (simp_all add: exec pool and_then_def)
  also have "\<dots> = run F (?vm 7 []) (?out6 @ ''[ '' @ ostream_double F ?n @ '' ]'' @ endl
       @ ''000006  00007  00000000000000000000000000000000      RETURN  '' @ endl
       @ ostream_double F ?n @ endl)" (is "_ = run F _ ?out7")
    by (rule iter) (simp_all add: exec pool and_then_def)
  also have "\<dots> = Inr (Ok, ?vm 7 [], ?out7)"
    by (subst run.simps) (simp add: len)
  finally show ?thesis
    by (simp add: new_VirtualMachine_def)
qed

theorem run_returns_Ok_witness:
  "\<exists>vm' out'. run (binary64 (\<lambda>d. []) (\<lambda>d. []))
      (new_VirtualMachine (test_chunk (literal 12 (- 1)) (literal 34 (- 1)) (literal 56 (- 1))))
      [] = Inr (Ok, vm', out')"
proof -
  let ?F = "binary64 (\<lambda>d. []) (\<lambda>d. [])"
  let ?vm = "new_VirtualMachine (test_chunk (literal 12 (- 1)) (literal 34 (- 1)) (literal 56 (- 1)))"
  from run_test_chunk [of ?F]
  obtain r vm' out' where h: "run ?F ?vm [] = Inr (r, vm', out')"
    by blast
  from run_returns_Ok [OF h] h show ?thesis
    by blast
qed

section \<open>The program of main\<close>

lemmas binary64_eval =
  literal_def round_to_double_def scaled_def width.simps Let_def signed_def

lemma double_1_2: "literal 12 (- 1) = Finite False 5404319552844595 (- 52)"
  by (simp add: binary64_eval)

lemma double_3_4: "literal 34 (- 1) = Finite False 7656119366529843 (- 51)"
  by (simp add: binary64_eval)

lemma double_5_6: "literal 56 (- 1) = Finite False 6305039478318694 (- 50)"
  by (simp add: binary64_eval)

lemma double_4_6: "literal 46 (- 1) = Finite False 5179139571476070 (- 50)"
  by (simp add: binary64_eval)

lemma double_result: "literal 8214285714285714 (- 16) = Finite False 7398770816394386 (- 53)"
  by (simp add: binary64_eval)

lemma double_sum:
  "double_add (Finite False 5404319552844595 (- 52)) (Finite False 7656119366529843 (- 51))
     = Finite False 5179139571476070 (- 50)"
  by (simp add: binary64_eval)

lemma double_quotient:
  "double_div (Finite False 5179139571476070 (- 50)) (Finite False 6305039478318694 (- 50))
     = Finite False 7398770816394386 (- 53)"
  by (simp add: binary64_eval)

text \<open>Some values of the arithmetic, as a check of the instance against the standard.\<close>

lemma binary64_examples:
  "double_div (literal 1 0) (literal 3 0) = Finite False 6004799503160661 (- 54)"
  "double_add (literal 1 (- 1)) (literal 2 (- 1)) = Finite False 5404319552844596 (- 54)"
  "literal 3 (- 1) = Finite False 5404319552844595 (- 54)"
  "double_sub (literal 3 (- 1)) (literal 1 (- 1)) = Finite False 7205759403792793 (- 55)"
  "double_sub (literal 1 0) (literal 1 0) = Finite False 0 (- 1074)"
  "double_div (literal 1 0) (literal 0 0) = Infinity False"
  "double_div (double_neg (literal 1 0)) (literal 0 0) = Infinity True"
  "double_div (literal 0 0) (literal 0 0) = NaN"
  by (simp_all add: binary64_eval double_sub_def)

text \<open>What the stream writes for the doubles of the run, and for some others.\<close>

lemmas text_eval =
  scaled10_def decimal_exponent_def significant_def strip_zeros_def
  fraction_def sign_text_def general6_def decimal.simps right_align_def replicate_numeral

lemma ostream_values:
  "ostream_text (Finite False 5404319552844595 (- 52)) = ''1.2''"
  "ostream_text (Finite False 7656119366529843 (- 51)) = ''3.4''"
  "ostream_text (Finite False 5179139571476070 (- 50)) = ''4.6''"
  "ostream_text (Finite False 6305039478318694 (- 50)) = ''5.6''"
  "ostream_text (Finite False 7398770816394386 (- 53)) = ''0.821429''"
  "ostream_text (Finite True 7398770816394386 (- 53)) = ''-0.821429''"
  by (simp_all add: binary64_eval text_eval)

lemma ostream_examples:
  "ostream_text (literal 100000 0) = ''100000''"
  "ostream_text (literal 1000000 0) = ''1e+06''"
  "ostream_text (literal 9999995 (- 1)) = ''1e+06''"
  "ostream_text (literal 1234565 (- 1)) = ''123456''"
  "ostream_text (literal 1 (- 4)) = ''0.0001''"
  "ostream_text (literal 1234567 (- 11)) = ''1.23457e-05''"
  "ostream_text (literal 5 (- 1)) = ''0.5''"
  "ostream_text (double_neg (literal 0 0)) = ''-0''"
  "ostream_text (double_div (literal 1 0) (literal 0 0)) = ''inf''"
  by (simp_all add: binary64_eval text_eval)

lemma double_negated:
  "double_neg (Finite False 7398770816394386 (- 53)) = Finite True 7398770816394386 (- 53)"
  by simp

text \<open>
  The run of \<open>main\<close> on binary64 arithmetic with the stream's rendering of doubles, for
  any rendering \<open>fmt\<close> by \<^verbatim>\<open>std::format\<close> and whatever \<open>cerr\<close> held before.
\<close>

lemma main_output:
  "main (binary64 ostream_text fmt) (literal 12 (- 1)) (literal 34 (- 1)) (literal 56 (- 1)) cerr =
     Inr (Ok,
       \<lparr>chunk_m = test_chunk (Finite False 5404319552844595 (- 52))
          (Finite False 7656119366529843 (- 51)) (Finite False 6305039478318694 (- 50)),
        ip_m = 7, stack_m = []\<rparr>,
       cerr
       @ ''[ ]'' @ endl
       @ ''000000  00001  00000000000000000000000000000001    CONSTANT       0  ''
       @ right_align (CHR '' '') 10 (fmt (Finite False 5404319552844595 (- 52))) @ endl
       @ ''[ 1.2 ]'' @ endl
       @ ''000001  00002  00000000000000000000000100000001    CONSTANT       1  ''
       @ right_align (CHR '' '') 10 (fmt (Finite False 7656119366529843 (- 51))) @ endl
       @ ''[ 1.2 3.4 ]'' @ endl
       @ ''000002  00003  00000000000000000000000000000010         ADD  '' @ endl
       @ ''[ 4.6 ]'' @ endl
       @ ''000003  00004  00000000000000000000001000000001    CONSTANT       3  ''
       @ right_align (CHR '' '') 10 (fmt (Finite False 6305039478318694 (- 50))) @ endl
       @ ''[ 4.6 5.6 ]'' @ endl
       @ ''000004  00005  00000000000000000000000000000101      DIVIDE  '' @ endl
       @ ''[ 0.821429 ]'' @ endl
       @ ''000005  00006  00000000000000000000000000000110      NEGATE  '' @ endl
       @ ''[ -0.821429 ]'' @ endl
       @ ''000006  00007  00000000000000000000000000000000      RETURN  '' @ endl
       @ ''-0.821429'' @ endl)"
proof -
  have ops: "fadd (binary64 ostream_text fmt) = double_add"
    "fdiv (binary64 ostream_text fmt) = double_div"
    "fneg (binary64 ostream_text fmt) = double_neg"
    "ostream_double (binary64 ostream_text fmt) = ostream_text"
    "format_double (binary64 ostream_text fmt) = fmt"
    by (simp_all add: binary64_def)
  show ?thesis
    unfolding main_def main_chunk_value and_then_def sum.case run_test_chunk ops
      double_1_2 double_3_4 double_5_6 double_sum double_quotient double_negated
      ostream_values
    by simp
qed

text \<open>
  C4, as amended. \<open>main\<close> builds the chunk Constant 1.2, Constant 3.4, Add, Constant 5.6,
  Divide, Negate, Return and runs a new machine (instruction pointer 0, empty stack) over
  it. \<open>run\<close> returns \<open>Ok\<close> with instruction pointer 7 and an empty stack. The stream
  receives the trace of the seven instructions (\<^verbatim>\<open>DEBUG_TRACE_EXECUTION\<close> is defined) and
  then, as the last thing written, the value \<open>-((1.2 + 3.4) / 5.6)\<close> followed by a
  newline. That value is the double \<open>-7398770816394386 * 2\<^sup>-\<^sup>5\<^sup>3\<close>, which is also the double
  of \<open>-0.8214285714285714\<close>; the stream writes it with 6 significant digits, as the text
  \<open>-0.821429\<close>.
\<close>

theorem main_prints_result:
  "main (binary64 ostream_text fmt) (literal 12 (- 1)) (literal 34 (- 1)) (literal 56 (- 1)) cerr =
     Inr (Ok,
       \<lparr>chunk_m = test_chunk (Finite False 5404319552844595 (- 52))
          (Finite False 7656119366529843 (- 51)) (Finite False 6305039478318694 (- 50)),
        ip_m = 7, stack_m = []\<rparr>,
       cerr
       @ ''[ ]'' @ endl
       @ ''000000  00001  00000000000000000000000000000001    CONSTANT       0  ''
       @ right_align (CHR '' '') 10 (fmt (Finite False 5404319552844595 (- 52))) @ endl
       @ ''[ 1.2 ]'' @ endl
       @ ''000001  00002  00000000000000000000000100000001    CONSTANT       1  ''
       @ right_align (CHR '' '') 10 (fmt (Finite False 7656119366529843 (- 51))) @ endl
       @ ''[ 1.2 3.4 ]'' @ endl
       @ ''000002  00003  00000000000000000000000000000010         ADD  '' @ endl
       @ ''[ 4.6 ]'' @ endl
       @ ''000003  00004  00000000000000000000001000000001    CONSTANT       3  ''
       @ right_align (CHR '' '') 10 (fmt (Finite False 6305039478318694 (- 50))) @ endl
       @ ''[ 4.6 5.6 ]'' @ endl
       @ ''000004  00005  00000000000000000000000000000101      DIVIDE  '' @ endl
       @ ''[ 0.821429 ]'' @ endl
       @ ''000005  00006  00000000000000000000000000000110      NEGATE  '' @ endl
       @ ''[ -0.821429 ]'' @ endl
       @ ''000006  00007  00000000000000000000000000000000      RETURN  '' @ endl
       @ ''-0.821429'' @ endl) \<and>
   double_neg (double_div (double_add (literal 12 (- 1)) (literal 34 (- 1))) (literal 56 (- 1)))
     = Finite True 7398770816394386 (- 53) \<and>
   double_neg (literal 8214285714285714 (- 16)) = Finite True 7398770816394386 (- 53) \<and>
   ostream_text (Finite True 7398770816394386 (- 53)) = ''-0.821429''"
proof -
  have "double_neg (double_div (double_add (literal 12 (- 1)) (literal 34 (- 1))) (literal 56 (- 1)))
     = Finite True 7398770816394386 (- 53)"
    unfolding double_1_2 double_3_4 double_5_6 double_sum double_quotient double_negated ..
  moreover have "double_neg (literal 8214285714285714 (- 16)) = Finite True 7398770816394386 (- 53)"
    unfolding double_result double_negated ..
  ultimately show ?thesis
    using main_output [of fmt cerr] ostream_values(6) by simp
qed

text \<open>
  C4, as stated, fails: whatever \<^verbatim>\<open>std::format\<close> produces in the trace, the output of
  \<open>main\<close> does not end with the text \<open>-0.8214285714285714\<close> and a newline.
\<close>

theorem main_text_not_sixteen_digits:
  "\<not> (\<exists>fmt vm out.
        main (binary64 ostream_text fmt) (literal 12 (- 1)) (literal 34 (- 1)) (literal 56 (- 1)) []
          = Inr (Ok, vm, out @ ''-0.8214285714285714'' @ endl))"
proof
  assume "\<exists>fmt vm out.
        main (binary64 ostream_text fmt) (literal 12 (- 1)) (literal 34 (- 1)) (literal 56 (- 1)) []
          = Inr (Ok, vm, out @ ''-0.8214285714285714'' @ endl)"
  then obtain fmt vm out where
    "main (binary64 ostream_text fmt) (literal 12 (- 1)) (literal 34 (- 1)) (literal 56 (- 1)) []
          = Inr (Ok, vm, out @ ''-0.8214285714285714'' @ endl)"
    by blast
  then have "take 2 (rev (out @ ''-0.8214285714285714'' @ endl)) = ''\<newline>9''"
    unfolding main_output by (simp add: endl_def)
  then show False
    by (simp add: endl_def)
qed

end
